theory Spec2Isabelle
  imports Complex_Main
begin

section \<open>Numbers\<close>

text \<open>
  The source computes in \<^verbatim>\<open>float\<close> and \<^verbatim>\<open>double\<close>, the binary32 and binary64 formats
  of IEEE 754. A value of either type is a \<open>flt\<close>: a finite real, an infinity or a NaN.
  Each arithmetic operation of the source is the exact operation on the reals followed by
  rounding to the format of its operands, to nearest with ties to even, with gradual
  underflow below the smallest normal number and overflow to an infinity; an expression
  is evaluated in the type of its operands (\<^verbatim>\<open>FLT_EVAL_METHOD\<close> 0), and a \<^verbatim>\<open>float\<close>
  converted to \<^verbatim>\<open>double\<close> keeps its value. The two zeros are not told apart: a zero
  divisor counts as \<open>+0\<close>. (The cached total weight starts at \<open>+0\<close> and a sum never gives
  \<open>-0\<close> from it.)
\<close>

datatype flt = Finite real | PlusInfinity | MinusInfinity | NaN

record format =
  precision :: nat
  emin :: int
  emax :: int

definition binary32 :: format where
  "binary32 = \<lparr>precision = 24, emin = - 126, emax = 127\<rparr>"

definition binary64 :: format where
  "binary64 = \<lparr>precision = 53, emin = - 1022, emax = 1023\<rparr>"

text \<open>The binary exponent of a positive real: \<open>2\<^sup>e \<le> x < 2\<^sup>e\<^sup>+\<^sup>1\<close> for \<open>e = expo x\<close>.\<close>

function expo :: "real \<Rightarrow> int" where
  "expo x = (if 2 \<le> x then expo (x / 2) + 1
             else if 0 < x \<and> x < 1 then expo (2 * x) - 1
             else 0)"
  by pat_completeness auto
termination
proof (relation "measure (\<lambda>x. nat \<lceil>x\<rceil> + 2 * nat \<lceil>1 / x\<rceil>)")
  have half: "\<lceil>z / 2\<rceil> < \<lceil>z\<rceil>" if "1 < z" for z :: real
  proof -
    from that have "2 \<le> \<lceil>z\<rceil>" by (simp add: less_ceiling_iff)
    then have "(2::real) \<le> of_int \<lceil>z\<rceil>" by linarith
    moreover have "z \<le> of_int \<lceil>z\<rceil>" by (rule le_of_int_ceiling)
    ultimately have "z / 2 \<le> of_int \<lceil>z\<rceil> - 1" by linarith
    then have "z / 2 \<le> of_int (\<lceil>z\<rceil> - 1)" by simp
    then show ?thesis by (simp add: ceiling_less_iff)
  qed
  show "wf (measure (\<lambda>x. nat \<lceil>x\<rceil> + 2 * nat \<lceil>1 / x\<rceil>))" by simp
  show "(x / 2, x) \<in> measure (\<lambda>x. nat \<lceil>x\<rceil> + 2 * nat \<lceil>1 / x\<rceil>)" if x: "2 \<le> x" for x :: real
  proof -
    have a: "\<lceil>x / 2\<rceil> < \<lceil>x\<rceil>" using x by (intro half) simp
    have b: "\<lceil>1 / (x / 2)\<rceil> = 1" using x by (simp add: ceiling_eq_iff)
    have c: "\<lceil>1 / x\<rceil> = 1" using x by (simp add: ceiling_eq_iff)
    have d: "0 < \<lceil>x / 2\<rceil>" using x by simp
    from a d have "nat \<lceil>x / 2\<rceil> < nat \<lceil>x\<rceil>" by linarith
    with b c show ?thesis unfolding in_measure by linarith
  qed
  show "(2 * x, x) \<in> measure (\<lambda>x. nat \<lceil>x\<rceil> + 2 * nat \<lceil>1 / x\<rceil>)"
    if "\<not> 2 \<le> x" and x: "0 < x \<and> x < 1" for x :: real
  proof -
    have a: "\<lceil>x\<rceil> = 1" using x by (simp add: ceiling_eq_iff)
    have b: "\<lceil>2 * x\<rceil> \<le> 2" using x by (simp add: ceiling_le_iff)
    have "\<lceil>(1 / x) / 2\<rceil> < \<lceil>1 / x\<rceil>" using x by (intro half) simp
    then have c: "\<lceil>1 / (2 * x)\<rceil> < \<lceil>1 / x\<rceil>" by (simp add: mult.commute)
    have d: "0 < \<lceil>1 / (2 * x)\<rceil>" using x by simp
    from c d have "nat \<lceil>1 / (2 * x)\<rceil> < nat \<lceil>1 / x\<rceil>" by linarith
    moreover from b have "nat \<lceil>2 * x\<rceil> \<le> 2" by linarith
    moreover from a have "nat \<lceil>x\<rceil> = 1" by simp
    ultimately show ?thesis unfolding in_measure by linarith
  qed
qed

text \<open>Rounding a real to the nearest integer, a tie to the even one.\<close>

definition rhe :: "real \<Rightarrow> int" where
  "rhe y =
     (let f = \<lfloor>y\<rfloor>
      in if y - of_int f < 1 / 2 then f
         else if 1 / 2 < y - of_int f then f + 1
         else if even f then f else f + 1)"

text \<open>
  Rounding a magnitude \<open>m \<ge> 0\<close> to the format, the exponent range unbounded above: the
  nearest multiple of \<open>2\<^sup>q\<close>, where \<open>q\<close> is the exponent of the last place of \<open>m\<close> (that of
  the subnormal numbers for \<open>m\<close> below the normal range).
\<close>

definition round_to :: "format \<Rightarrow> real \<Rightarrow> real" where
  "round_to f m =
     (let q = max (expo m) (emin f) - (int (precision f) - 1)
      in of_int (rhe (m / 2 powi q)) * 2 powi q)"

text \<open>The value of the format nearest to the real \<open>x\<close>.\<close>

definition fl :: "format \<Rightarrow> real \<Rightarrow> flt" where
  "fl f x =
     (let y = round_to f \<bar>x\<bar>
      in if 2 powi (emax f + 1) \<le> y then (if 0 < x then PlusInfinity else MinusInfinity)
         else Finite (sgn x * y))"

text \<open>The sign of a value (of a zero: 0), and the infinity of a sign (of sign 0: a NaN).\<close>

fun flt_sign :: "flt \<Rightarrow> real" where
  "flt_sign (Finite x) = sgn x"
| "flt_sign PlusInfinity = 1"
| "flt_sign MinusInfinity = - 1"
| "flt_sign NaN = 0"

definition infinity_of :: "real \<Rightarrow> flt" where
  "infinity_of s = (if 0 < s then PlusInfinity else if s < 0 then MinusInfinity else NaN)"

text \<open>\<open>p + q\<close>: a NaN stays, and infinities of opposite sign give one.\<close>

fun fadd :: "format \<Rightarrow> flt \<Rightarrow> flt \<Rightarrow> flt" where
  "fadd f (Finite x) (Finite y) = fl f (x + y)"
| "fadd f NaN q = NaN"
| "fadd f p NaN = NaN"
| "fadd f PlusInfinity MinusInfinity = NaN"
| "fadd f MinusInfinity PlusInfinity = NaN"
| "fadd f PlusInfinity q = PlusInfinity"
| "fadd f p PlusInfinity = PlusInfinity"
| "fadd f MinusInfinity q = MinusInfinity"
| "fadd f p MinusInfinity = MinusInfinity"

text \<open>\<open>- p\<close> and \<open>fabs(p)\<close>, both exact, and \<open>p - q\<close>.\<close>

fun fneg :: "flt \<Rightarrow> flt" where
  "fneg (Finite x) = Finite (- x)"
| "fneg PlusInfinity = MinusInfinity"
| "fneg MinusInfinity = PlusInfinity"
| "fneg NaN = NaN"

fun fabs :: "flt \<Rightarrow> flt" where
  "fabs (Finite x) = Finite \<bar>x\<bar>"
| "fabs PlusInfinity = PlusInfinity"
| "fabs MinusInfinity = PlusInfinity"
| "fabs NaN = NaN"

definition fsub :: "format \<Rightarrow> flt \<Rightarrow> flt \<Rightarrow> flt" where
  "fsub f p q = fadd f p (fneg q)"

text \<open>\<open>p * q\<close>: an infinity times zero is a NaN.\<close>

fun fmul :: "format \<Rightarrow> flt \<Rightarrow> flt \<Rightarrow> flt" where
  "fmul f (Finite x) (Finite y) = fl f (x * y)"
| "fmul f NaN q = NaN"
| "fmul f p NaN = NaN"
| "fmul f p q = infinity_of (flt_sign p * flt_sign q)"

text \<open>
  \<open>p / q\<close>: a finite value over zero is an infinity of its sign, zero over zero and an
  infinity over an infinity are NaN, a finite value over an infinity is zero.
\<close>

fun fdiv :: "format \<Rightarrow> flt \<Rightarrow> flt \<Rightarrow> flt" where
  "fdiv f (Finite x) (Finite y) = (if y \<noteq> 0 then fl f (x / y) else infinity_of (sgn x))"
| "fdiv f NaN q = NaN"
| "fdiv f p NaN = NaN"
| "fdiv f (Finite x) q = Finite 0"
| "fdiv f p (Finite y) = infinity_of (flt_sign p * (if y < 0 then - 1 else 1))"
| "fdiv f p q = NaN"

text \<open>\<open>sqrt(p)\<close>, correctly rounded: of a negative value a NaN.\<close>

fun fsqrt :: "format \<Rightarrow> flt \<Rightarrow> flt" where
  "fsqrt f (Finite x) = (if x < 0 then NaN else fl f (sqrt x))"
| "fsqrt f PlusInfinity = PlusInfinity"
| "fsqrt f MinusInfinity = NaN"
| "fsqrt f NaN = NaN"

text \<open>
  The comparisons \<open>p < q\<close> between two values and \<open>r <= p\<close> of a finite \<open>r\<close> with a
  value: false when a NaN takes part. (\<open>p > q\<close> is \<open>q < p\<close>.)
\<close>

fun flt_less :: "flt \<Rightarrow> flt \<Rightarrow> bool" where
  "flt_less (Finite x) (Finite y) = (x < y)"
| "flt_less NaN q = False"
| "flt_less p NaN = False"
| "flt_less p MinusInfinity = False"
| "flt_less PlusInfinity q = False"
| "flt_less p q = True"

fun le_flt :: "real \<Rightarrow> flt \<Rightarrow> bool" where
  "le_flt r (Finite x) = (r \<le> x)"
| "le_flt r PlusInfinity = True"
| "le_flt r MinusInfinity = False"
| "le_flt r NaN = False"

section \<open>Data model\<close>

subsection \<open>Species\<close>

datatype PdgCode = PdgCode int

text \<open>
  Modelled from the spec: \<^verbatim>\<open>PdgCode::invalid()\<close> of \<^verbatim>\<open>include/pdgcode.h\<close>, the
  "explicitly invalid placeholder code". Only its identity matters below.
\<close>

definition invalid :: PdgCode where
  "invalid = PdgCode 0"

text \<open>
  \<^verbatim>\<open>ParticleType\<close> (\<^verbatim>\<open>include/particletype.h\<close>) is the entry of the species registry:
  the accessors \<^verbatim>\<open>pdgcode()\<close>, \<^verbatim>\<open>mass()\<close> (the pole mass), \<^verbatim>\<open>minimum_mass()\<close> and
  \<^verbatim>\<open>is_stable()\<close> that \<^verbatim>\<open>action.cc\<close> calls are the fields of the record.
\<close>

record ParticleType =
  pdgcode :: PdgCode
  mass :: flt
  minimum_mass :: flt
  is_stable :: bool

subsection \<open>Vectors\<close>

datatype ThreeVector = ThreeVector flt flt flt

record FourVector =
  x0 :: flt
  x1 :: flt
  x2 :: flt
  x3 :: flt

text \<open>
  Modelled from the spec: the component-wise operations of \<^verbatim>\<open>include/threevector.h\<close>
  and \<^verbatim>\<open>include/fourvector.h\<close> that \<^verbatim>\<open>action.cc\<close> uses, on \<^verbatim>\<open>double\<close> components:
  \<^verbatim>\<open>ThreeVector * double\<close>, unary minus, the constructor
  \<^verbatim>\<open>FourVector(double, ThreeVector)\<close>, the default constructor (all components zero),
  \<^verbatim>\<open>+=\<close>, \<^verbatim>\<open>-=\<close> and \<^verbatim>\<open>threevec()\<close>.
\<close>

fun threevec_times :: "ThreeVector \<Rightarrow> flt \<Rightarrow> ThreeVector" where
  "threevec_times (ThreeVector a b c) k =
     ThreeVector (fmul binary64 a k) (fmul binary64 b k) (fmul binary64 c k)"

fun threevec_uminus :: "ThreeVector \<Rightarrow> ThreeVector" where
  "threevec_uminus (ThreeVector a b c) = ThreeVector (fneg a) (fneg b) (fneg c)"

fun FourVector_of :: "flt \<Rightarrow> ThreeVector \<Rightarrow> FourVector" where
  "FourVector_of e (ThreeVector a b c) = \<lparr>x0 = e, x1 = a, x2 = b, x3 = c\<rparr>"

definition FourVector_zero :: FourVector where
  "FourVector_zero = \<lparr>x0 = Finite 0, x1 = Finite 0, x2 = Finite 0, x3 = Finite 0\<rparr>"

definition fourvec_plus :: "FourVector \<Rightarrow> FourVector \<Rightarrow> FourVector" where
  "fourvec_plus u v =
     \<lparr>x0 = fadd binary64 (x0 u) (x0 v), x1 = fadd binary64 (x1 u) (x1 v),
      x2 = fadd binary64 (x2 u) (x2 v), x3 = fadd binary64 (x3 u) (x3 v)\<rparr>"

definition fourvec_minus :: "FourVector \<Rightarrow> FourVector \<Rightarrow> FourVector" where
  "fourvec_minus u v =
     \<lparr>x0 = fsub binary64 (x0 u) (x0 v), x1 = fsub binary64 (x1 u) (x1 v),
      x2 = fsub binary64 (x2 u) (x2 v), x3 = fsub binary64 (x3 u) (x3 v)\<rparr>"

definition threevec :: "FourVector \<Rightarrow> ThreeVector" where
  "threevec v = ThreeVector (x1 v) (x2 v) (x3 v)"

subsection \<open>Particles\<close>

text \<open>
  \<^verbatim>\<open>ParticleData\<close>: the accessors \<^verbatim>\<open>id()\<close> (here \<open>ident\<close>, since \<open>id\<close> is HOL's
  identity function), \<^verbatim>\<open>type()\<close> (here \<open>ptype\<close>), \<^verbatim>\<open>id_process()\<close>, \<^verbatim>\<open>momentum()\<close>
  and \<^verbatim>\<open>position()\<close>. \<^verbatim>\<open>set_4momentum\<close> is the update of the field \<open>momentum\<close>.
\<close>

record ParticleData =
  ident :: int
  ptype :: ParticleType
  id_process :: int
  momentum :: FourVector
  position :: FourVector

type_synonym ParticleList = "ParticleData list"

text \<open>
  The particle pool \<^verbatim>\<open>Particles\<close> is read through \<^verbatim>\<open>has_data(id)\<close> and \<^verbatim>\<open>data(id)\<close>
  only: a map from ids to the live particle records, where \<^verbatim>\<open>has_data(id)\<close> is
  \<open>particles id \<noteq> None\<close> and \<^verbatim>\<open>data(id)\<close> is the record stored under the id.
\<close>

type_synonym Particles = "int \<rightharpoonup> ParticleData"

subsection \<open>Branches\<close>

text \<open>A branch: its species and its \<^verbatim>\<open>float\<close> weight.\<close>

record ProcessBranch =
  particle_types :: "ParticleType list"
  weight :: flt

type_synonym ProcessBranchList = "ProcessBranch list"

text \<open>
  Modelled from the spec: \<^verbatim>\<open>ProcessBranch::particle_list()\<close> of
  \<^verbatim>\<open>include/processbranch.h\<close>, the branch's final state as a list of fresh particle
  records, one per species in order, with no id, no process and zero vectors yet.
\<close>

definition new_ParticleData :: "ParticleType \<Rightarrow> ParticleData" where
  "new_ParticleData t =
     \<lparr>ident = - 1, ptype = t, id_process = - 1,
      momentum = FourVector_zero, position = FourVector_zero\<rparr>"

definition particle_list :: "ProcessBranch \<Rightarrow> ParticleList" where
  "particle_list proc = map new_ParticleData (particle_types proc)"

subsection \<open>The interaction candidate\<close>

text \<open>\<^verbatim>\<open>time_of_execution_\<close> and \<^verbatim>\<open>total_weight_\<close> are \<^verbatim>\<open>float\<close> members.\<close>

record Action =
  incoming_particles :: ParticleList
  outgoing_particles :: ParticleList
  subprocesses :: ProcessBranchList
  time_of_execution :: flt
  total_weight :: flt

text \<open>\<^verbatim>\<open>Action::Action(const ParticleList &in_part, float time_of_execution)\<close>\<close>

definition new_Action :: "ParticleList \<Rightarrow> flt \<Rightarrow> Action" where
  "new_Action in_part t =
     \<lparr>incoming_particles = in_part, outgoing_particles = [], subprocesses = [],
      time_of_execution = t, total_weight = Finite 0\<rparr>"

text \<open>\<^verbatim>\<open>float Action::weight() const\<close>\<close>

definition Action_weight :: "Action \<Rightarrow> flt" where
  "Action_weight a = total_weight a"

section \<open>Effects\<close>

text \<open>
  What a member function does beyond its return value is a list of events, in the order
  the source produces them: a call of the logger with its arguments, or a call of the
  external resonance mass sampler. A function ends by returning, by throwing, or in the
  failed \<^verbatim>\<open>assert\<close> that aborts the program.
\<close>

datatype log_level = Fatal | Warn | Info | Debug

datatype log_arg =
    Str string
  | Flt flt
  | Count nat
  | Pdg PdgCode
  | Vec ThreeVector
  | Part ParticleData
  | Act Action
  | SourceLocation

datatype event =
    Log log_level "log_arg list"
  | Call_sample_resonance_mass ParticleType ParticleType flt

datatype exn =
    RuntimeError string
  | InvalidResonanceFormation "log_arg list"

datatype 'a outcome = Returns 'a | Throws exn | AssertFailed

section \<open>Branch accumulation\<close>

text \<open>
  \<^verbatim>\<open>void Action::add_process(ProcessBranch p)\<close>: the weight is added to the cached total,
  a \<^verbatim>\<open>float\<close> addition, then the branch is appended.
\<close>

definition add_process :: "Action \<Rightarrow> ProcessBranch \<Rightarrow> Action" where
  "add_process a p =
     (let a1 = a\<lparr>total_weight := fadd binary32 (total_weight a) (weight p)\<rparr>
      in a1\<lparr>subprocesses := subprocesses a1 @ [p]\<rparr>)"

text \<open>
  \<^verbatim>\<open>void Action::add_processes(ProcessBranchList pv)\<close>. With no branch stored the list
  is adopted and its weights are added in a loop over the stored branches; otherwise
  the loop over \<open>pv\<close> adds each weight and appends each branch in turn.
\<close>

definition add_processes :: "Action \<Rightarrow> ProcessBranchList \<Rightarrow> Action" where
  "add_processes a pv =
     (if subprocesses a = [] then
        (let a1 = a\<lparr>subprocesses := pv\<rparr>
         in foldl (\<lambda>s proc. s\<lparr>total_weight := fadd binary32 (total_weight s) (weight proc)\<rparr>)
              a1 (subprocesses a1))
      else
        foldl (\<lambda>s proc.
                 (let s1 = s\<lparr>total_weight := fadd binary32 (total_weight s) (weight proc)\<rparr>
                  in s1\<lparr>subprocesses := subprocesses s1 @ [proc]\<rparr>))
          a pv)"

text \<open>A caller's sequence of appends, single and bulk, in the order they are made.\<close>

datatype append_call = Add_process ProcessBranch | Add_processes ProcessBranchList

fun append_branches :: "Action \<Rightarrow> append_call \<Rightarrow> Action" where
  "append_branches a (Add_process p) = add_process a p"
| "append_branches a (Add_processes pv) = add_processes a pv"

section \<open>Channel selection\<close>

text \<open>
  The guard of the loop's \<^verbatim>\<open>continue\<close> in \<^verbatim>\<open>Action::choose_channel\<close>: the branch has no
  species, or its first species carries the invalid code. (\<open>\<or>\<close> stands for the
  short-circuit \<^verbatim>\<open>||\<close>: the first species is read only when there is one.)
\<close>

definition skipped :: "ProcessBranch \<Rightarrow> bool" where
  "skipped proc =
     (length (particle_types proc) < 1 \<or> pdgcode (particle_types proc ! 0) = invalid)"

text \<open>
  The loop of \<^verbatim>\<open>choose_channel\<close> over the remaining branches, with the draw \<open>r\<close>
  (\<^verbatim>\<open>random_interaction\<close>, a finite \<^verbatim>\<open>double\<close>), the cached total \<open>W\<close> (\<^verbatim>\<open>total_weight_\<close>)
  and the running \<^verbatim>\<open>interaction_probability\<close> \<open>p\<close>, a \<^verbatim>\<open>float\<close>: the quotient is a
  \<^verbatim>\<open>float\<close> division and \<^verbatim>\<open>+=\<close> a \<^verbatim>\<open>float\<close> addition, the comparison with the draw is
  exact. The loop leaves by \<^verbatim>\<open>return\<close> from inside, or falls through to the code after
  it with the probability accumulated so far.
\<close>

datatype loop_exit = Return ProcessBranch | Fallthrough flt

fun choose_loop :: "real \<Rightarrow> flt \<Rightarrow> flt \<Rightarrow> ProcessBranchList \<Rightarrow> loop_exit" where
  "choose_loop r W p [] = Fallthrough p"
| "choose_loop r W p (proc # procs) =
     (if skipped proc then choose_loop r W p procs
      else
        (let p1 = fadd binary32 p (fdiv binary32 (weight proc) W)
         in if le_flt r p1 then Return proc else choose_loop r W p1 procs))"

text \<open>
  \<^verbatim>\<open>ParticleList Action::choose_channel()\<close>, with the value \<open>r\<close> that
  \<^verbatim>\<open>Random::canonical()\<close> draws as an argument. The result is the list of events and how
  the call ends.
\<close>

definition choose_channel :: "real \<Rightarrow> Action \<Rightarrow> event list \<times> ParticleList outcome" where
  "choose_channel r a =
     (case choose_loop r (total_weight a) (Finite 0) (subprocesses a) of
        Return proc \<Rightarrow> ([], Returns (particle_list proc))
      | Fallthrough p \<Rightarrow>
          ([Log Fatal
              [SourceLocation, Str ''Problem in choose_channel: '',
               Count (length (subprocesses a)), Str '' '', Flt p, Str '' '',
               Flt (total_weight a), Str [CHR 0x0A], Act a]],
           Throws (RuntimeError ''problem in choose_channel'')))"

section \<open>Validity against the pool\<close>

text \<open>
  \<^verbatim>\<open>bool Action::is_valid(const Particles &particles) const\<close>: the loop over the
  incoming snapshots. A snapshot whose id the pool no longer holds ends it with
  \<^verbatim>\<open>false\<close>, and so does one whose live \<^verbatim>\<open>id_process\<close> differs from the recorded
  one. The function is \<^verbatim>\<open>const\<close> on a \<^verbatim>\<open>const\<close> pool: it has a result and no effect.
\<close>

fun is_valid_loop :: "Particles \<Rightarrow> ParticleList \<Rightarrow> bool" where
  "is_valid_loop particles [] = True"
| "is_valid_loop particles (part # parts) =
     (case particles (ident part) of
        None \<Rightarrow> False
      | Some live \<Rightarrow>
          if id_process live \<noteq> id_process part then False
          else is_valid_loop particles parts)"

definition is_valid :: "Action \<Rightarrow> Particles \<Rightarrow> bool" where
  "is_valid a particles = is_valid_loop particles (incoming_particles a)"

section \<open>Two-body kinematics\<close>

text \<open>
  \<^verbatim>\<open>void Action::sample_cms_momenta()\<close>. Four things come from outside \<^verbatim>\<open>action.cc\<close>
  and are arguments here: \<open>mass_format\<close>, the floating-point type that \<^verbatim>\<open>mass()\<close> and
  \<^verbatim>\<open>minimum_mass()\<close> return, in which the source adds the two minimum masses; \<open>sqrt_s\<close>,
  the member function that gives the centre-of-mass energy of the candidate;
  \<open>sample_resonance_mass\<close>, the external sampler, as the function that gives the mass it
  draws; and \<open>phitheta\<close>, the direction \<^verbatim>\<open>phitheta.threevec()\<close> that
  \<^verbatim>\<open>distribute_isotropically()\<close> has drawn (it also stands for the \<^verbatim>\<open>Angles\<close> object where
  that is logged). The locals are \<^verbatim>\<open>double\<close>. The result is the list of events, how the
  call ends, and the candidate afterwards.
\<close>

definition sample_cms_momenta ::
  "format \<Rightarrow> (Action \<Rightarrow> flt) \<Rightarrow> (ParticleType \<Rightarrow> ParticleType \<Rightarrow> flt \<Rightarrow> flt) \<Rightarrow> ThreeVector \<Rightarrow>
   Action \<Rightarrow> event list \<times> unit outcome \<times> Action" where
  "sample_cms_momenta mass_format sqrt_s sample_resonance_mass phitheta a =
     (if length (outgoing_particles a) \<noteq> 2 then ([], AssertFailed, a)
      else
        (let p_a = outgoing_particles a ! 0;
             p_b = outgoing_particles a ! 1;
             t_a = ptype p_a;
             t_b = ptype p_b;
             cms_energy = sqrt_s a
         in if flt_less cms_energy (fadd mass_format (minimum_mass t_a) (minimum_mass t_b)) then
              ([],
               Throws (InvalidResonanceFormation
                 [Str ''resonance_formation: not enough energy! '', Flt cms_energy,
                  Str '' '', Flt (minimum_mass t_a), Str '' '', Flt (minimum_mass t_b),
                  Str '' '', Pdg (pdgcode t_a), Str '' '', Pdg (pdgcode t_b)]),
               a)
            else
              (let (calls, mass_a, mass_b) =
                     (if \<not> is_stable t_a then
                        ([Call_sample_resonance_mass t_a t_b cms_energy],
                         sample_resonance_mass t_a t_b cms_energy, mass t_b)
                      else if \<not> is_stable t_b then
                        ([Call_sample_resonance_mass t_b t_a cms_energy],
                         mass t_a, sample_resonance_mass t_b t_a cms_energy)
                      else ([], mass t_a, mass t_b));
                   energy_a =
                     fdiv binary64
                       (fsub binary64
                          (fadd binary64 (fmul binary64 cms_energy cms_energy)
                             (fmul binary64 mass_a mass_a))
                          (fmul binary64 mass_b mass_b))
                       (fmul binary64 (Finite 2) cms_energy);
                   momentum_radial =
                     fsqrt binary64
                       (fsub binary64 (fmul binary64 energy_a energy_a)
                          (fmul binary64 mass_a mass_a));
                   warned =
                     (if \<not> flt_less (Finite 0) momentum_radial then
                        [Log Warn [Str ''radial momenta '', Flt momentum_radial]]
                      else []);
                   informed =
                     (if \<not> flt_less mass_a energy_a then
                        [Log Info [Str ''Particle '', Pdg (pdgcode t_a), Str '' radial momenta '',
                                   Flt momentum_radial, Vec phitheta],
                         Log Info [Str ''Etot: '', Flt cms_energy, Str '' m_a: '', Flt mass_a,
                                   Str '' m_b: '', Flt mass_b, Str '' E_a: '', Flt energy_a]]
                      else []);
                   p_a1 = p_a\<lparr>momentum :=
                            FourVector_of energy_a (threevec_times phitheta momentum_radial)\<rparr>;
                   p_b1 = p_b\<lparr>momentum :=
                            FourVector_of (fsub binary64 cms_energy energy_a)
                              (threevec_times (threevec_uminus phitheta) momentum_radial)\<rparr>
               in (calls @ warned @ informed @
                     [Log Debug [Str ''p_a: '', Part p_a1, Str (CHR 0x0A # ''p_b: ''), Part p_b1]],
                   Returns (),
                   a\<lparr>outgoing_particles := (outgoing_particles a)[0 := p_a1, 1 := p_b1]\<rparr>))))"

text \<open>The calls of the external sampler among the events of a run.\<close>

fun sampler_calls :: "event list \<Rightarrow> (ParticleType \<times> ParticleType \<times> flt) list" where
  "sampler_calls [] = []"
| "sampler_calls (Call_sample_resonance_mass t other e # evs) = (t, other, e) # sampler_calls evs"
| "sampler_calls (Log lvl args # evs) = sampler_calls evs"

section \<open>Conservation check\<close>

text \<open>
  \<^verbatim>\<open>void Action::check_conservation(const size_t &id_process) const\<close>, with the constant
  \<^verbatim>\<open>really_small\<close> of \<^verbatim>\<open>include/constants.h\<close> as an argument. The function is \<^verbatim>\<open>const\<close>
  and returns nothing: what it does is the list of warnings it logs.
\<close>

definition check_conservation :: "real \<Rightarrow> nat \<Rightarrow> Action \<Rightarrow> event list" where
  "check_conservation really_small process_id a =
     (let incoming_sum =
            foldl (\<lambda>d part. fourvec_plus d (momentum part)) FourVector_zero
              (incoming_particles a);
          momentum_difference =
            foldl (\<lambda>d p. fourvec_minus d (momentum p)) incoming_sum (outgoing_particles a)
      in (if flt_less (Finite really_small) (fabs (x0 momentum_difference)) then
            [Log Warn [Str ''Process '', Count process_id,
                       Str (CHR 0x0A # ''E conservation violation ''), Flt (x0 momentum_difference)]]
          else []) @
         (if flt_less (Finite really_small) (fabs (x1 momentum_difference)) then
            [Log Warn [Str ''px conservation violation '', Flt (x1 momentum_difference)]]
          else []) @
         (if flt_less (Finite really_small) (fabs (x2 momentum_difference)) then
            [Log Warn [Str ''py conservation violation '', Flt (x2 momentum_difference)]]
          else []) @
         (if flt_less (Finite really_small) (fabs (x3 momentum_difference)) then
            [Log Warn [Str ''pz conservation violation '', Flt (x3 momentum_difference)]]
          else []))"

section \<open>The quantities of the specification\<close>

text \<open>The real value of a finite \<open>flt\<close> (and 0 for the others).\<close>

fun value_of :: "flt \<Rightarrow> real" where
  "value_of (Finite x) = x"
| "value_of PlusInfinity = 0"
| "value_of MinusInfinity = 0"
| "value_of NaN = 0"

text \<open>
  The branches a call appends, and the \<^verbatim>\<open>float\<close> sum of a list of weights: from zero,
  left to right, each addition rounded.
\<close>

fun appended :: "append_call \<Rightarrow> ProcessBranchList" where
  "appended (Add_process p) = [p]"
| "appended (Add_processes pv) = pv"

definition float_sum :: "flt list \<Rightarrow> flt" where
  "float_sum ws = foldl (fadd binary32) (Finite 0) ws"

text \<open>
  \<open>accumulated W p procs\<close> is \<open>p\<close> with the \<^verbatim>\<open>float\<close> quotient \<open>w / W\<close> added, in \<^verbatim>\<open>float\<close>,
  for each branch of \<open>procs\<close> that the loop does not skip, in their order;
  \<open>selectable_probability W procs\<close> is that from zero, the cumulative probability the
  loop has reached after \<open>procs\<close>; \<open>running a k\<close> is the one reached after the first \<open>k\<close>
  stored branches of the candidate; \<open>first_reached r a\<close> is the position (counted from 0)
  of the first stored branch after which it has reached the draw, if there is one.
\<close>

definition accumulated :: "flt \<Rightarrow> flt \<Rightarrow> ProcessBranchList \<Rightarrow> flt" where
  "accumulated W p procs =
     foldl (\<lambda>q proc. fadd binary32 q (fdiv binary32 (weight proc) W)) p
       (filter (\<lambda>proc. \<not> skipped proc) procs)"

definition selectable_probability :: "flt \<Rightarrow> ProcessBranchList \<Rightarrow> flt" where
  "selectable_probability W procs = accumulated W (Finite 0) procs"

definition running :: "Action \<Rightarrow> nat \<Rightarrow> flt" where
  "running a k = selectable_probability (total_weight a) (take k (subprocesses a))"

definition first_reached :: "real \<Rightarrow> Action \<Rightarrow> nat option" where
  "first_reached r a =
     find (\<lambda>i. le_flt r (running a (Suc i))) [0..<length (subprocesses a)]"

text \<open>
  The exact quantities of the specification: \<open>cumulative a k\<close> is
  \<open>(w\<^sub>1 + \<dots> + w\<^sub>k) / W\<close> over the first \<open>k\<close> stored branches, in the reals; the interval
  for the branch at position \<open>i\<close> (counted from 0) is
  \<open>(w\<^sub>1 + \<dots> + w\<^sub>i) / W < r \<le> (w\<^sub>1 + \<dots> + w\<^sub>i\<^sub>+\<^sub>1) / W\<close>; \<open>skipped_weight\<close> is the part of
  the stored weight that sits on branches the loop skips.
\<close>

definition cumulative :: "Action \<Rightarrow> nat \<Rightarrow> real" where
  "cumulative a k =
     sum_list (map (\<lambda>proc. value_of (weight proc)) (take k (subprocesses a))) /
     value_of (total_weight a)"

definition in_selection_interval :: "Action \<Rightarrow> real \<Rightarrow> nat \<Rightarrow> bool" where
  "in_selection_interval a r i = (cumulative a i < r \<and> r \<le> cumulative a (Suc i))"




text \<open>
  The two-body formulas of the specification, \<open>E\<^sub>a = (s + m\<^sub>a\<^sup>2 - m\<^sub>b\<^sup>2) / (2 \<surd>s)\<close> with
  \<open>s = (\<surd>s)\<^sup>2\<close> and \<open>p = \<surd>(E\<^sub>a\<^sup>2 - m\<^sub>a\<^sup>2)\<close>, evaluated in \<^verbatim>\<open>double\<close>, every operation rounded.
\<close>

definition two_body_energy :: "flt \<Rightarrow> flt \<Rightarrow> flt \<Rightarrow> flt" where
  "two_body_energy cms m_a m_b =
     fdiv binary64
       (fsub binary64 (fadd binary64 (fmul binary64 cms cms) (fmul binary64 m_a m_a))
          (fmul binary64 m_b m_b))
       (fmul binary64 (Finite 2) cms)"

definition two_body_radicand :: "flt \<Rightarrow> flt \<Rightarrow> flt \<Rightarrow> flt" where
  "two_body_radicand cms m_a m_b =
     fsub binary64
       (fmul binary64 (two_body_energy cms m_a m_b) (two_body_energy cms m_a m_b))
       (fmul binary64 m_a m_a)"

definition two_body_momentum :: "flt \<Rightarrow> flt \<Rightarrow> flt \<Rightarrow> flt" where
  "two_body_momentum cms m_a m_b = fsqrt binary64 (two_body_radicand cms m_a m_b)"

text \<open>The insufficient-energy error among the ways a call can end.\<close>

fun insufficient_energy :: "'a outcome \<Rightarrow> bool" where
  "insufficient_energy (Throws (InvalidResonanceFormation msg)) = True"
| "insufficient_energy other = False"

text \<open>
  The four-vector difference that \<open>check_conservation\<close> tests: the incoming four-momenta
  added to zero, then the outgoing ones subtracted, component by component in
  \<^verbatim>\<open>double\<close>.
\<close>

definition momentum_balance :: "Action \<Rightarrow> FourVector" where
  "momentum_balance a =
     foldl (\<lambda>d p. fourvec_minus d (momentum p))
       (foldl (\<lambda>d part. fourvec_plus d (momentum part)) FourVector_zero (incoming_particles a))
       (outgoing_particles a)"

section \<open>Concrete inputs\<close>

text \<open>
  A stable species of mass 0.5, the placeholder species with the invalid code, an
  unstable species, and candidates built from them with the constructor and the append
  functions. Every number is a value of its type.
\<close>

definition stable_half :: ParticleType where
  "stable_half =
     \<lparr>pdgcode = PdgCode 211, mass = Finite (1 / 2), minimum_mass = Finite (1 / 2),
      is_stable = True\<rparr>"

definition placeholder :: ParticleType where
  "placeholder =
     \<lparr>pdgcode = invalid, mass = Finite 0, minimum_mass = Finite 0, is_stable = True\<rparr>"

definition resonance :: ParticleType where
  "resonance =
     \<lparr>pdgcode = PdgCode 2214, mass = Finite 1, minimum_mass = Finite (1 / 2),
      is_stable = False\<rparr>"

definition pair_branch :: ProcessBranch where
  "pair_branch = \<lparr>particle_types = [stable_half, stable_half], weight = Finite 1\<rparr>"

definition placeholder_branch :: ProcessBranch where
  "placeholder_branch = \<lparr>particle_types = [placeholder], weight = Finite 1\<rparr>"

definition heavy_branch :: ProcessBranch where
  "heavy_branch = \<lparr>particle_types = [stable_half], weight = Finite 3\<rparr>"

definition double_branch :: ProcessBranch where
  "double_branch = \<lparr>particle_types = [stable_half], weight = Finite 2\<rparr>"


definition big_branch :: ProcessBranch where
  "big_branch = \<lparr>particle_types = [stable_half], weight = Finite 16777216\<rparr>"

definition candidate :: Action where
  "candidate = new_Action [] (Finite 0)"

definition single_channel :: Action where
  "single_channel = add_process candidate pair_branch"

definition mixed_channels :: Action where
  "mixed_channels = add_process (add_process candidate placeholder_branch) pair_branch"

definition two_channels :: Action where
  "two_channels = add_processes candidate [pair_branch, heavy_branch]"

definition third_channels :: Action where
  "third_channels = add_process (add_process candidate pair_branch) double_branch"

definition twelve_channels :: Action where
  "twelve_channels = add_processes candidate (replicate 12 pair_branch)"


definition absorbing :: "append_call list" where
  "absorbing = [Add_process big_branch, Add_process pair_branch]"

definition snapshot :: ParticleData where
  "snapshot = (new_ParticleData stable_half)\<lparr>ident := 1, id_process := 5\<rparr>"

definition queued :: Action where
  "queued = new_Action [snapshot] (Finite 0)"

definition moving :: ParticleData where
  "moving =
     (new_ParticleData stable_half)
       \<lparr>momentum := \<lparr>x0 = Finite 1, x1 = Finite (1 / 2), x2 = Finite 0, x3 = Finite 0\<rparr>\<rparr>"

definition resting :: ParticleData where
  "resting =
     (new_ParticleData stable_half)
       \<lparr>momentum := \<lparr>x0 = Finite 1, x1 = Finite 0, x2 = Finite 0, x3 = Finite 0\<rparr>\<rparr>"

definition unbalanced :: Action where
  "unbalanced = candidate\<lparr>outgoing_particles := [resting]\<rparr>\<lparr>incoming_particles := [moving]\<rparr>"

definition pair_state :: Action where
  "pair_state = candidate\<lparr>outgoing_particles := particle_list pair_branch\<rparr>"

definition resonance_pair :: Action where
  "resonance_pair =
     candidate\<lparr>outgoing_particles := [new_ParticleData resonance, new_ParticleData resonance]\<rparr>"

definition stable_of :: "real \<Rightarrow> ParticleType" where
  "stable_of m =
     \<lparr>pdgcode = PdgCode 211, mass = Finite m, minimum_mass = Finite m, is_stable = True\<rparr>"

definition final_state :: "real \<Rightarrow> real \<Rightarrow> Action" where
  "final_state m_a m_b =
     candidate\<lparr>outgoing_particles :=
       [new_ParticleData (stable_of m_a), new_ParticleData (stable_of m_b)]\<rparr>"

definition up :: ThreeVector where
  "up = ThreeVector (Finite 0) (Finite 0) (Finite 1)"

section \<open>Properties of rounding\<close>

declare expo.simps [simp del]

lemmas float_eval =
  fl_def round_to_def rhe_def Let_def binary32_def binary64_def expo.simps infinity_of_def

lemma expo_bounds:
  "0 < x \<Longrightarrow> 2 powi (expo x) \<le> x \<and> x < 2 powi (expo x + 1)"
proof (induction x rule: expo.induct)
  case (1 x)
  show ?case
  proof (cases "2 \<le> x")
    case True
    with "1.IH"(1) "1.prems" have "2 powi (expo (x / 2)) \<le> x / 2 \<and> x / 2 < 2 powi (expo (x / 2) + 1)"
      by simp
    moreover from True have "expo x = expo (x / 2) + 1"
      by (subst expo.simps) simp
    ultimately show ?thesis
      by (simp add: power_int_add)
  next
    case False
    show ?thesis
    proof (cases "x < 1")
      case True
      with False "1.IH"(2) "1.prems"
      have "2 powi (expo (2 * x)) \<le> 2 * x \<and> 2 * x < 2 powi (expo (2 * x) + 1)"
        by simp
      moreover from True False "1.prems" have "expo x = expo (2 * x) - 1"
        by (subst expo.simps) simp
      ultimately show ?thesis
        by (simp add: power_int_diff power_int_add)
    next
      case ge: False
      with False have "expo x = 0"
        by (subst expo.simps) simp
      with False ge show ?thesis by simp
    qed
  qed
qed

lemma expo_unique:
  assumes "0 < x" "2 powi e \<le> x" "x < 2 powi (e + 1)"
  shows "expo x = e"
proof (rule ccontr)
  assume ne: "expo x \<noteq> e"
  from expo_bounds [OF assms(1)]
  have lo: "2 powi (expo x) \<le> x" and hi: "x < 2 powi (expo x + 1)" by simp_all
  show False
  proof (cases "expo x < e")
    case True
    then have "(2::real) powi (expo x + 1) \<le> 2 powi e"
      by (intro power_int_increasing) simp_all
    with hi assms(2) show False by simp
  next
    case False
    with ne have "e + 1 \<le> expo x" by simp
    then have "(2::real) powi (e + 1) \<le> 2 powi (expo x)"
      by (intro power_int_increasing) simp_all
    with lo assms(3) show False by simp
  qed
qed







lemma round_to_0: "round_to f 0 = 0"
  by (simp add: round_to_def rhe_def)







lemma two_powi_pos: "\<not> (2::real) powi k \<le> 0"
  by (simp add: not_le)



lemma fl_uminus: "fl f (- x) = fneg (fl f x)"
proof -
  have "\<not> 2 powi (emax f + 1) \<le> round_to f \<bar>x\<bar>" if "x = 0"
    using that by (simp add: round_to_0 two_powi_pos)
  then show ?thesis
    by (cases "x = 0") (auto simp: fl_def Let_def sgn_minus)
qed




lemma infinity_of_minus: "infinity_of (- s) = fneg (infinity_of s)"
  by (simp add: infinity_of_def)

lemma flt_sign_fneg: "flt_sign (fneg p) = - flt_sign p"
  by (cases p) (simp_all add: sgn_minus)

lemma fmul_fneg: "fmul f (fneg p) q = fneg (fmul f p q)"
proof (cases p)
  case (Finite x)
  then show ?thesis
    by (cases q) (simp_all add: fl_uminus [symmetric] infinity_of_minus [symmetric] sgn_minus)
next
  case PlusInfinity
  then show ?thesis
    by (cases q) (simp_all add: infinity_of_minus [symmetric])
next
  case MinusInfinity
  then show ?thesis
    by (cases q) (simp_all add: infinity_of_minus [symmetric])
next
  case NaN
  then show ?thesis by simp
qed

lemma threevec_times_uminus:
  "threevec_times (threevec_uminus v) k = threevec_uminus (threevec_times v k)"
  by (cases v) (simp add: fmul_fneg)

section \<open>Properties of branch accumulation\<close>

lemma bulk_weight_loop:
  "foldl (\<lambda>s proc. s\<lparr>total_weight := fadd binary32 (total_weight s) (weight proc)\<rparr>) a pv =
   a\<lparr>total_weight := foldl (fadd binary32) (total_weight a) (map weight pv)\<rparr>"
  by (induction pv arbitrary: a) simp_all

lemma append_loop:
  "foldl (\<lambda>s proc. s\<lparr>total_weight := fadd binary32 (total_weight s) (weight proc),
                       subprocesses := subprocesses s @ [proc]\<rparr>) a pv =
   a\<lparr>total_weight := foldl (fadd binary32) (total_weight a) (map weight pv),
     subprocesses := subprocesses a @ pv\<rparr>"
  by (induction pv arbitrary: a) simp_all

lemma add_process_subprocesses:
  "subprocesses (add_process a p) = subprocesses a @ [p]"
  by (simp add: add_process_def Let_def)

lemma add_processes_subprocesses:
  "subprocesses (add_processes a pv) = subprocesses a @ pv"
  by (simp add: add_processes_def bulk_weight_loop append_loop Let_def)

lemma add_process_total:
  "total_weight (add_process a p) = fadd binary32 (total_weight a) (weight p)"
  by (simp add: add_process_def Let_def)

lemma add_processes_total:
  "total_weight (add_processes a pv) =
     foldl (fadd binary32) (total_weight a) (map weight pv)"
  by (simp add: add_processes_def bulk_weight_loop append_loop Let_def)

lemma append_branches_subprocesses:
  "subprocesses (append_branches a c) = subprocesses a @ appended c"
  by (cases c) (simp_all add: add_process_subprocesses add_processes_subprocesses)

lemma append_branches_invariant:
  "total_weight a = float_sum (map weight (subprocesses a)) \<Longrightarrow>
   total_weight (append_branches a c) =
     float_sum (map weight (subprocesses (append_branches a c)))"
  by (cases c)
     (simp_all add: add_process_total add_process_subprocesses
        add_processes_total add_processes_subprocesses float_sum_def)

lemma foldl_append_branches:
  "total_weight a = float_sum (map weight (subprocesses a)) \<Longrightarrow>
   total_weight (foldl append_branches a cs) =
     float_sum (map weight (subprocesses (foldl append_branches a cs))) \<and>
   subprocesses (foldl append_branches a cs) = subprocesses a @ concat (map appended cs)"
proof (induction cs arbitrary: a)
  case Nil
  then show ?case by simp
next
  case (Cons c cs)
  from Cons.prems have "total_weight (append_branches a c) =
      float_sum (map weight (subprocesses (append_branches a c)))"
    by (rule append_branches_invariant)
  from Cons.IH [OF this] show ?case
    by (simp add: append_branches_subprocesses)
qed

text \<open>
  C1, as the specification states it, fails: the cached total is a \<^verbatim>\<open>float\<close> and each
  \<^verbatim>\<open>+=\<close> rounds. Appending the weights \<open>2\<^sup>2\<^sup>4\<close> and 1, both \<^verbatim>\<open>float\<close> values, leaves
  \<open>weight()\<close> at \<open>2\<^sup>2\<^sup>4\<close>, which is not their sum.
\<close>

theorem C1_counterexample:
  "fl binary32 16777216 = Finite 16777216 \<and> fl binary32 1 = Finite 1 \<and>
   map weight (subprocesses (foldl append_branches (new_Action [] (Finite 0)) absorbing)) =
     [Finite 16777216, Finite 1] \<and>
   Action_weight (foldl append_branches (new_Action [] (Finite 0)) absorbing) = Finite 16777216 \<and>
   (16777216::real) \<noteq> 16777216 + 1"
  by (simp add: absorbing_def add_process_def big_branch_def pair_branch_def new_Action_def
        Action_weight_def float_eval)

text \<open>
  C1, amended. An Action is constructed from a particle list and a time, with total
  weight zero. After any sequence of \<open>add_process\<close> and \<open>add_processes\<close> calls, in any
  order, the stored branches are the appended ones in the order of the calls, and the
  cached total that \<open>weight()\<close> returns is their \<^verbatim>\<open>float\<close> sum: the weights added from zero,
  left to right in that order, each addition rounded to \<^verbatim>\<open>float\<close>, whichever path
  \<open>add_processes\<close> took.
\<close>

theorem C1_total_weight_is_float_sum:
  "subprocesses (foldl append_branches (new_Action in_part t) cs) = concat (map appended cs) \<and>
   Action_weight (foldl append_branches (new_Action in_part t) cs) =
     float_sum (map weight (concat (map appended cs)))"
proof -
  have "total_weight (new_Action in_part t) =
      float_sum (map weight (subprocesses (new_Action in_part t)))"
    by (simp add: new_Action_def float_sum_def)
  from foldl_append_branches [OF this, of cs] show ?thesis
    by (simp add: Action_weight_def new_Action_def)
qed

theorem C1_witness:
  "Action_weight two_channels = Finite 4 \<and>
   subprocesses two_channels = [pair_branch, heavy_branch]"
proof -
  have "two_channels = foldl append_branches (new_Action [] (Finite 0))
      [Add_processes [pair_branch, heavy_branch]]"
    by (simp add: two_channels_def candidate_def)
  with C1_total_weight_is_float_sum
    [of "[]" "Finite 0" "[Add_processes [pair_branch, heavy_branch]]"]
  show ?thesis
    by (simp add: float_sum_def pair_branch_def heavy_branch_def float_eval)
qed

section \<open>Properties of channel selection\<close>

lemma choose_loop_Return:
  "choose_loop r W p procs = Return proc \<Longrightarrow> proc \<in> set procs \<and> \<not> skipped proc"
  by (induction procs arbitrary: p) (auto simp: Let_def split: if_splits)

lemma accumulated_Cons:
  "accumulated W p (proc # procs) =
     (if skipped proc then accumulated W p procs
      else accumulated W (fadd binary32 p (fdiv binary32 (weight proc) W)) procs)"
  by (simp add: accumulated_def)

lemma accumulated_Nil:
  "accumulated W p [] = p"
  by (simp add: accumulated_def)


lemma choose_loop_Fallthrough:
  "choose_loop r W p procs = Fallthrough q \<longleftrightarrow>
     (\<forall>i<length procs. \<not> skipped (procs ! i) \<longrightarrow>
        \<not> le_flt r (accumulated W p (take (Suc i) procs))) \<and>
     q = accumulated W p procs"
proof (induction procs arbitrary: p)
  case Nil
  then show ?case by (auto simp: accumulated_Nil)
next
  case (Cons proc procs)
  show ?case
  proof (cases "skipped proc")
    case True
    then show ?thesis
      by (simp add: Cons.IH All_less_Suc2 accumulated_Cons)
  next
    case False
    then show ?thesis
      by (auto simp: Cons.IH All_less_Suc2 accumulated_Cons accumulated_Nil Let_def)
  qed
qed

lemma choose_loop_first:
  "i < length procs \<Longrightarrow> \<not> skipped (procs ! i) \<Longrightarrow>
   le_flt r (accumulated W p (take (Suc i) procs)) \<Longrightarrow>
   \<forall>j<i. \<not> skipped (procs ! j) \<longrightarrow> \<not> le_flt r (accumulated W p (take (Suc j) procs)) \<Longrightarrow>
   choose_loop r W p procs = Return (procs ! i)"
proof (induction procs arbitrary: p i)
  case Nil
  then show ?case by simp
next
  case (Cons proc procs)
  show ?case
  proof (cases i)
    case 0
    with Cons.prems show ?thesis
      by (simp add: accumulated_Cons accumulated_Nil Let_def)
  next
    case (Suc k)
    show ?thesis
    proof (cases "skipped proc")
      case True
      with Cons.prems Suc have "choose_loop r W p procs = Return (procs ! k)"
        by (intro Cons.IH) (auto simp: accumulated_Cons All_less_Suc2)
      with True Suc show ?thesis by simp
    next
      case False
      let ?p1 = "fadd binary32 p (fdiv binary32 (weight proc) W)"
      from Cons.prems(4) Suc False have first: "\<not> le_flt r ?p1"
        by (auto simp: accumulated_Cons accumulated_Nil)
      from Cons.prems Suc False
      have "choose_loop r W ?p1 procs = Return (procs ! k)"
        by (intro Cons.IH) (auto simp: accumulated_Cons All_less_Suc2)
      with False first Suc show ?thesis by (simp add: Let_def)
    qed
  qed
qed

text \<open>
  C3. Whatever the draw, \<open>choose_channel\<close> does not return the final state of a branch
  whose species list is empty or whose first species is the invalid placeholder,
  whatever the weight of that branch: the list returned belongs to a stored branch that
  the loop does not skip, and is the list of no branch that it would skip.
\<close>

theorem C3_skipped_branch_never_returned:
  assumes "choose_channel r a = (evs, Returns l)"
  shows "(\<exists>b\<in>set (subprocesses a). \<not> skipped b \<and> l = particle_list b) \<and>
         (\<forall>b. skipped b \<longrightarrow> particle_list b \<noteq> l)"
proof -
  from assms obtain proc where
    loop: "choose_loop r (total_weight a) (Finite 0) (subprocesses a) = Return proc" and
    l: "l = particle_list proc"
    by (auto simp: choose_channel_def split: loop_exit.splits)
  from loop have mem: "proc \<in> set (subprocesses a)" and sel: "\<not> skipped proc"
    by (auto dest: choose_loop_Return)
  have "particle_list b \<noteq> l" if "skipped b" for b
  proof
    assume "particle_list b = l"
    with l have "map ptype (particle_list b) = map ptype (particle_list proc)" by simp
    then have "particle_types b = particle_types proc"
      by (simp add: particle_list_def new_ParticleData_def comp_def)
    with that sel show False by (simp add: skipped_def)
  qed
  with mem sel l show ?thesis by blast
qed

theorem C3_witness:
  "choose_channel (3 / 10) mixed_channels = ([], Returns (particle_list pair_branch)) \<and>
   skipped placeholder_branch \<and>
   particle_list placeholder_branch \<noteq> particle_list pair_branch"
proof -
  have run: "choose_channel (3 / 10) mixed_channels = ([], Returns (particle_list pair_branch))"
    by (simp add: choose_channel_def mixed_channels_def candidate_def add_process_def
          new_Action_def skipped_def placeholder_branch_def pair_branch_def placeholder_def
          stable_half_def invalid_def float_eval)
  have skip: "skipped placeholder_branch"
    by (simp add: skipped_def placeholder_branch_def placeholder_def)
  from C3_skipped_branch_never_returned [OF run] skip
  have "particle_list placeholder_branch \<noteq> particle_list pair_branch" by blast
  with run skip show ?thesis by simp
qed

text \<open>
  C4. When no branch that the loop considers has its cumulative probability reach the
  draw, \<open>choose_channel\<close> logs one fatal diagnostic with the branch count, the cumulative
  value reached, the total weight and the candidate itself, and throws; it returns no
  final state and falls back on no branch. It throws in no other case.
\<close>

theorem C4_no_branch_reached_is_fatal:
  "(\<forall>i<length (subprocesses a). \<not> skipped (subprocesses a ! i) \<longrightarrow>
      \<not> le_flt r (selectable_probability (total_weight a) (take (Suc i) (subprocesses a))))
   \<longleftrightarrow>
   choose_channel r a =
     ([Log Fatal
         [SourceLocation, Str ''Problem in choose_channel: '',
          Count (length (subprocesses a)), Str '' '',
          Flt (selectable_probability (total_weight a) (subprocesses a)), Str '' '',
          Flt (total_weight a), Str [CHR 0x0A], Act a]],
      Throws (RuntimeError ''problem in choose_channel''))"
proof -
  let ?q = "selectable_probability (total_weight a) (subprocesses a)"
  have "choose_loop r (total_weight a) (Finite 0) (subprocesses a) = Fallthrough ?q \<longleftrightarrow>
      (\<forall>i<length (subprocesses a). \<not> skipped (subprocesses a ! i) \<longrightarrow>
        \<not> le_flt r (selectable_probability (total_weight a) (take (Suc i) (subprocesses a))))"
    by (simp add: choose_loop_Fallthrough selectable_probability_def)
  moreover have "choose_loop r (total_weight a) (Finite 0) (subprocesses a) = Fallthrough ?q \<longleftrightarrow>
      choose_channel r a =
        ([Log Fatal
            [SourceLocation, Str ''Problem in choose_channel: '',
             Count (length (subprocesses a)), Str '' '', Flt ?q, Str '' '',
             Flt (total_weight a), Str [CHR 0x0A], Act a]],
         Throws (RuntimeError ''problem in choose_channel''))"
    by (auto simp: choose_channel_def split: loop_exit.splits)
  ultimately show ?thesis by blast
qed

lemma mixed_channels_fields:
  "subprocesses mixed_channels = [placeholder_branch, pair_branch]"
  "total_weight mixed_channels = Finite 2"
  "skipped placeholder_branch" "\<not> skipped pair_branch"
  "weight placeholder_branch = Finite 1" "weight pair_branch = Finite 1"
  by (simp_all add: mixed_channels_def candidate_def add_process_def new_Action_def
        placeholder_branch_def pair_branch_def skipped_def placeholder_def stable_half_def
        invalid_def float_eval)

theorem C4_witness:
  "choose_channel (3 / 4) mixed_channels =
     ([Log Fatal
         [SourceLocation, Str ''Problem in choose_channel: '', Count 2, Str '' '',
          Flt (Finite (1 / 2)), Str '' '', Flt (Finite 2), Str [CHR 0x0A], Act mixed_channels]],
      Throws (RuntimeError ''problem in choose_channel''))"
proof -
  have "\<forall>i<length (subprocesses mixed_channels).
      \<not> skipped (subprocesses mixed_channels ! i) \<longrightarrow>
      \<not> le_flt (3 / 4) (selectable_probability (total_weight mixed_channels)
                          (take (Suc i) (subprocesses mixed_channels)))"
    by (simp add: mixed_channels_fields All_less_Suc selectable_probability_def
          accumulated_def float_eval)
  from C4_no_branch_reached_is_fatal [THEN iffD1, OF this] show ?thesis
    by (simp add: mixed_channels_fields selectable_probability_def accumulated_def float_eval)
qed

text \<open>
  C2, as the specification states it, fails in two ways. The draw \<open>r = 0\<close>, which
  \<^verbatim>\<open>Random::canonical()\<close> can deliver, gets the first branch by
  \<^verbatim>\<open>random_interaction <= interaction_probability\<close>, and 0 is not in the half-open
  interval \<open>(0, w\<^sub>1 / W]\<close>. And the loop compares the draw with \<^verbatim>\<open>float\<close> values: with
  the weights 1 and 2 the first quotient is the \<^verbatim>\<open>float\<close> nearest to 1/3, which lies
  above 1/3, and the draw equal to it gets the first branch although it is in the
  interval \<open>(1/3, 1]\<close> of the second.
\<close>

theorem C2_counterexample:
  "(length (subprocesses single_channel) = 1 \<and>
    \<not> skipped (subprocesses single_channel ! 0) \<and>
    choose_channel 0 single_channel =
      ([], Returns (particle_list (subprocesses single_channel ! 0))) \<and>
    \<not> in_selection_interval single_channel 0 0) \<and>
   (length (subprocesses third_channels) = 2 \<and>
    \<not> skipped (subprocesses third_channels ! 0) \<and>
    \<not> skipped (subprocesses third_channels ! 1) \<and>
    map weight (subprocesses third_channels) = [Finite 1, Finite 2] \<and>
    total_weight third_channels = Finite 3 \<and>
    (0::real) \<le> 11184811 / 2 ^ 25 \<and> (11184811::real) / 2 ^ 25 < 1 \<and>
    \<not> 11184811 / 2 ^ 25 \<le> cumulative third_channels 1 \<and>
    in_selection_interval third_channels (11184811 / 2 ^ 25) 1 \<and>
    choose_channel (11184811 / 2 ^ 25) third_channels =
      ([], Returns (particle_list (subprocesses third_channels ! 0))) \<and>
    particle_list (subprocesses third_channels ! 0) \<noteq>
      particle_list (subprocesses third_channels ! 1))"
  by (simp add: single_channel_def third_channels_def candidate_def add_process_def
        new_Action_def pair_branch_def double_branch_def stable_half_def skipped_def
        invalid_def choose_channel_def in_selection_interval_def cumulative_def
        particle_list_def float_eval)

text \<open>
  Nor does a draw below 1 always find a branch: with twelve branches of weight 1 the
  twelve \<^verbatim>\<open>float\<close> additions of the \<^verbatim>\<open>float\<close> nearest to 1/12 end at \<open>1 - 2\<^sup>-\<^sup>2\<^sup>3\<close>, and the
  draw \<open>1 - 2\<^sup>-\<^sup>2\<^sup>5\<close> falls through to the throw.
\<close>

lemma twelve_channels_fields:
  "subprocesses twelve_channels = replicate 12 pair_branch"
  "total_weight twelve_channels = Finite 12"
  by (simp_all add: twelve_channels_def candidate_def add_processes_def new_Action_def
        pair_branch_def eval_nat_numeral float_eval)

lemma twelve_channels_throw:
  "running twelve_channels 12 = Finite (1 - 1 / 2 ^ 23) \<and>
   snd (choose_channel (1 - 1 / 2 ^ 25) twelve_channels) =
     Throws (RuntimeError ''problem in choose_channel'')"
  by (simp add: running_def selectable_probability_def accumulated_def choose_channel_def
        twelve_channels_fields pair_branch_def stable_half_def skipped_def invalid_def
        eval_nat_numeral float_eval)

text \<open>
  C2, amended. Let every stored branch have a species list that is not empty and starts
  with a valid species. Then \<open>choose_channel\<close> returns the particle list of the branch
  with the smallest index \<open>i\<close> such that \<open>r \<le> c\<^sub>i\<close>, where \<open>c\<^sub>i\<close> is the cumulative
  probability as the loop computes it: the \<^verbatim>\<open>float\<close> quotients \<open>w\<^sub>1 / W\<close>, \<dots>, \<open>w\<^sub>i / W\<close>
  added in \<^verbatim>\<open>float\<close> from zero, left to right. When no index has \<open>r \<le> c\<^sub>i\<close>, which can
  happen for a draw below 1, it logs the fatal diagnostic and throws. (Positions are
  counted from 0 here, and \<open>c\<^sub>i\<close> is \<open>running a i\<close>.)
\<close>

theorem C2_first_branch_reaching_draw:
  assumes "\<forall>b\<in>set (subprocesses a). \<not> skipped b"
  shows "choose_channel r a =
    (case first_reached r a of
       Some i \<Rightarrow> ([], Returns (particle_list (subprocesses a ! i)))
     | None \<Rightarrow>
         ([Log Fatal
             [SourceLocation, Str ''Problem in choose_channel: '',
              Count (length (subprocesses a)), Str '' '',
              Flt (running a (length (subprocesses a))), Str '' '',
              Flt (total_weight a), Str [CHR 0x0A], Act a]],
          Throws (RuntimeError ''problem in choose_channel'')))"
proof (cases "first_reached r a")
  case None
  then have "\<forall>i<length (subprocesses a).
      \<not> le_flt r (accumulated (total_weight a) (Finite 0) (take (Suc i) (subprocesses a)))"
    by (simp add: first_reached_def find_None_iff running_def selectable_probability_def)
  then have "choose_loop r (total_weight a) (Finite 0) (subprocesses a) =
      Fallthrough (accumulated (total_weight a) (Finite 0) (subprocesses a))"
    by (simp add: choose_loop_Fallthrough)
  with None show ?thesis
    by (simp add: choose_channel_def running_def selectable_probability_def)
next
  case (Some i)
  then obtain k where k: "k < length [0..<length (subprocesses a)]"
    and reach: "le_flt r (running a (Suc ([0..<length (subprocesses a)] ! k)))"
    and i: "i = [0..<length (subprocesses a)] ! k"
    and first: "\<forall>j<k. \<not> le_flt r (running a (Suc ([0..<length (subprocesses a)] ! j)))"
    unfolding first_reached_def find_Some_iff by blast
  from k i have ik: "i = k" and len: "i < length (subprocesses a)" by simp_all
  have "choose_loop r (total_weight a) (Finite 0) (subprocesses a) = Return (subprocesses a ! i)"
  proof (rule choose_loop_first)
    show "i < length (subprocesses a)" by (rule len)
    show "\<not> skipped (subprocesses a ! i)" using assms len by simp
    show "le_flt r (accumulated (total_weight a) (Finite 0) (take (Suc i) (subprocesses a)))"
      using reach i by (simp add: running_def selectable_probability_def)
    show "\<forall>j<i. \<not> skipped (subprocesses a ! j) \<longrightarrow>
        \<not> le_flt r (accumulated (total_weight a) (Finite 0) (take (Suc j) (subprocesses a)))"
      using first k ik by (simp add: running_def selectable_probability_def)
  qed
  with Some show ?thesis
    by (simp add: choose_channel_def)
qed

lemma two_channels_fields:
  "subprocesses two_channels = [pair_branch, heavy_branch]"
  "total_weight two_channels = Finite 4"
  "\<not> skipped pair_branch" "\<not> skipped heavy_branch"
  "weight pair_branch = Finite 1" "weight heavy_branch = Finite 3"
  by (simp_all add: two_channels_def candidate_def add_processes_def new_Action_def
        pair_branch_def heavy_branch_def skipped_def stable_half_def invalid_def float_eval)

theorem C2_witness:
  "running two_channels 1 = Finite (1 / 4) \<and> running two_channels 2 = Finite 1 \<and>
   choose_channel (1 / 2) two_channels = ([], Returns (particle_list heavy_branch))"
proof -
  have r1: "running two_channels 1 = Finite (1 / 4)"
    and r2: "running two_channels 2 = Finite 1"
    by (simp_all add: running_def selectable_probability_def accumulated_def
          two_channels_fields float_eval)
  have sel: "\<forall>b\<in>set (subprocesses two_channels). \<not> skipped b"
    by (simp add: two_channels_fields)
  have "first_reached (1 / 2) two_channels = Some 1"
    using r1 r2 by (simp add: first_reached_def two_channels_fields upt_rec numeral_2_eq_2)
  with C2_first_branch_reaching_draw [OF sel, of "1 / 2"] r1 r2 show ?thesis
    by (simp add: two_channels_fields)
qed











section \<open>Properties of the validity check\<close>

lemma is_valid_loop_iff:
  "is_valid_loop particles parts \<longleftrightarrow>
     (\<forall>part\<in>set parts. \<exists>live. particles (ident part) = Some live \<and>
        id_process live = id_process part)"
  by (induction parts) (auto split: option.splits)

text \<open>
  C7. \<open>is_valid\<close> answers false if the id of some incoming snapshot is absent from the
  pool, or if the pool's live \<open>id_process\<close> for it differs from the recorded one, and true
  when every incoming particle is present with the \<open>id_process\<close> recorded. It only reads:
  its result is a truth value, and neither the candidate nor the pool is changed.
\<close>

theorem C7_is_valid_iff_all_present_and_unchanged:
  "is_valid a particles \<longleftrightarrow>
     (\<forall>part\<in>set (incoming_particles a).
        \<exists>live. particles (ident part) = Some live \<and> id_process live = id_process part)"
  by (simp add: is_valid_def is_valid_loop_iff)

theorem C7_witness:
  "is_valid queued [1 \<mapsto> snapshot] \<and>
   \<not> is_valid queued [1 \<mapsto> snapshot\<lparr>id_process := 6\<rparr>] \<and>
   \<not> is_valid queued Map.empty"
proof -
  have inc: "incoming_particles queued = [snapshot]"
    by (simp add: queued_def new_Action_def)
  have snap: "ident snapshot = 1" "id_process snapshot = 5"
    by (simp_all add: snapshot_def new_ParticleData_def)
  have "is_valid queued [1 \<mapsto> snapshot]"
    using C7_is_valid_iff_all_present_and_unchanged [of queued "[1 \<mapsto> snapshot]"]
    by (simp add: inc snap)
  moreover have "\<not> is_valid queued [1 \<mapsto> snapshot\<lparr>id_process := 6\<rparr>]"
    using C7_is_valid_iff_all_present_and_unchanged
      [of queued "[1 \<mapsto> snapshot\<lparr>id_process := 6\<rparr>]"]
    by (simp add: inc snap)
  moreover have "\<not> is_valid queued Map.empty"
    using C7_is_valid_iff_all_present_and_unchanged [of queued Map.empty]
    by (simp add: inc)
  ultimately show ?thesis by simp
qed

section \<open>Properties of the conservation check\<close>

text \<open>
  What \<open>check_conservation\<close> logs, in terms of the four-vector difference: one warning
  for each component whose absolute difference exceeds the tolerance, in the order
  energy, x, y, z, and nothing else. Only the warning for the energy carries the
  process id.
\<close>

lemma check_conservation_warnings:
  "check_conservation really_small process_id a =
     (if flt_less (Finite really_small) (fabs (x0 (momentum_balance a))) then
        [Log Warn [Str ''Process '', Count process_id,
                   Str (CHR 0x0A # ''E conservation violation ''), Flt (x0 (momentum_balance a))]]
      else []) @
     (if flt_less (Finite really_small) (fabs (x1 (momentum_balance a))) then
        [Log Warn [Str ''px conservation violation '', Flt (x1 (momentum_balance a))]]
      else []) @
     (if flt_less (Finite really_small) (fabs (x2 (momentum_balance a))) then
        [Log Warn [Str ''py conservation violation '', Flt (x2 (momentum_balance a))]]
      else []) @
     (if flt_less (Finite really_small) (fabs (x3 (momentum_balance a))) then
        [Log Warn [Str ''pz conservation violation '', Flt (x3 (momentum_balance a))]]
      else [])"
  unfolding check_conservation_def momentum_balance_def Let_def by (rule refl)

text \<open>
  C9 asks that the diagnostic for a violating component name the component and the
  process id. The source does so for the energy only. Here the energy is conserved and
  the x component is off by 0.5: process 7 is checked with tolerance \<open>10\<^sup>-\<^sup>6\<close>, and the one
  warning logged names the component and the difference, not the process.
\<close>

theorem C9_momentum_warning_omits_process_id:
  "check_conservation (1 / 1000000) 7 unbalanced =
     [Log Warn [Str ''px conservation violation '', Flt (Finite (1 / 2))]]"
  by (simp add: check_conservation_def unbalanced_def candidate_def new_Action_def
        moving_def resting_def new_ParticleData_def fourvec_plus_def fourvec_minus_def
        FourVector_zero_def fsub_def float_eval)

section \<open>Properties of the two-body kinematics\<close>

lemma FourVector_of_parts:
  "x0 (FourVector_of e v) = e" "threevec (FourVector_of e v) = v"
  by (cases v; simp add: threevec_def)+

lemma sample_cms_momenta_outcome:
  assumes "outgoing_particles a = [p_a, p_b]"
  shows "fst (snd (sample_cms_momenta mass_format sqrt_s sample_resonance_mass phitheta a)) =
    (if flt_less (sqrt_s a)
          (fadd mass_format (minimum_mass (ptype p_a)) (minimum_mass (ptype p_b)))
     then Throws (InvalidResonanceFormation
       [Str ''resonance_formation: not enough energy! '', Flt (sqrt_s a),
        Str '' '', Flt (minimum_mass (ptype p_a)), Str '' '', Flt (minimum_mass (ptype p_b)),
        Str '' '', Pdg (pdgcode (ptype p_a)), Str '' '', Pdg (pdgcode (ptype p_b))])
     else Returns ())"
  using assms by (simp add: sample_cms_momenta_def Let_def split_def)

lemma final_state_fields:
  "outgoing_particles (final_state m_a m_b) =
     [new_ParticleData (stable_of m_a), new_ParticleData (stable_of m_b)]"
  "ptype (new_ParticleData t) = t"
  "minimum_mass (stable_of m) = Finite m" "mass (stable_of m) = Finite m"
  "is_stable (stable_of m)" "pdgcode (stable_of m) = PdgCode 211"
  by (simp_all add: final_state_def candidate_def new_Action_def new_ParticleData_def
        stable_of_def)

text \<open>
  C5, as stated, fails at the threshold, because the source compares \<open>sqrt_s\<close> with the
  rounded sum of the two minimum masses. If the masses are \<^verbatim>\<open>float\<close>: for the \<^verbatim>\<open>float\<close>
  values nearest to 0.1 and 0.7 and \<open>sqrt_s\<close> equal to their exact sum, the \<^verbatim>\<open>float\<close> sum
  is larger and the call throws although \<open>sqrt_s\<close> is not below the sum. If they are
  \<^verbatim>\<open>double\<close>: for the \<^verbatim>\<open>double\<close> values nearest to 0.1 and 0.7 and \<open>sqrt_s\<close> equal to
  their \<^verbatim>\<open>double\<close> sum, \<open>sqrt_s\<close> is below the exact sum and the call does not throw.
\<close>

theorem C5_counterexample:
  "(fl binary32 (13421773 / 2 ^ 27) = Finite (13421773 / 2 ^ 27) \<and>
    fl binary32 (11744051 / 2 ^ 24) = Finite (11744051 / 2 ^ 24) \<and>
    fl binary64 (107374181 / 2 ^ 27) = Finite (107374181 / 2 ^ 27) \<and>
    \<not> (107374181::real) / 2 ^ 27 < 13421773 / 2 ^ 27 + 11744051 / 2 ^ 24 \<and>
    insufficient_energy
      (fst (snd (sample_cms_momenta binary32 (\<lambda>a. Finite (107374181 / 2 ^ 27))
         (\<lambda>t other e. e) up (final_state (13421773 / 2 ^ 27) (11744051 / 2 ^ 24)))))) \<and>
   (fl binary64 (3602879701896397 / 2 ^ 55) = Finite (3602879701896397 / 2 ^ 55) \<and>
    fl binary64 (3152519739159347 / 2 ^ 52) = Finite (3152519739159347 / 2 ^ 52) \<and>
    fl binary64 (7205759403792793 / 2 ^ 53) = Finite (7205759403792793 / 2 ^ 53) \<and>
    (7205759403792793::real) / 2 ^ 53 < 3602879701896397 / 2 ^ 55 + 3152519739159347 / 2 ^ 52 \<and>
    \<not> insufficient_energy
      (fst (snd (sample_cms_momenta binary64 (\<lambda>a. Finite (7205759403792793 / 2 ^ 53))
         (\<lambda>t other e. e) up
         (final_state (3602879701896397 / 2 ^ 55) (3152519739159347 / 2 ^ 52))))))"
  by (simp add: sample_cms_momenta_outcome [OF final_state_fields(1)] final_state_fields
        float_eval)

text \<open>
  C5, amended. For a final state of two particles, \<open>sample_cms_momenta\<close> throws the
  insufficient-energy error if and only if the centre-of-mass energy is strictly below
  the sum of the two minimum masses as the source computes it, rounded to the
  floating-point type of the masses. When it throws, nothing has been logged, sampled
  or assigned: the candidate, and with it the momenta of the outgoing particles, is
  as before.
\<close>

theorem C5_insufficient_energy:
  assumes "outgoing_particles a = [p_a, p_b]"
  shows "(insufficient_energy
            (fst (snd (sample_cms_momenta mass_format sqrt_s sample_resonance_mass phitheta a)))
          \<longleftrightarrow>
          flt_less (sqrt_s a)
            (fadd mass_format (minimum_mass (ptype p_a)) (minimum_mass (ptype p_b)))) \<and>
         (insufficient_energy
            (fst (snd (sample_cms_momenta mass_format sqrt_s sample_resonance_mass phitheta a)))
          \<longrightarrow>
          fst (sample_cms_momenta mass_format sqrt_s sample_resonance_mass phitheta a) = [] \<and>
          snd (snd (sample_cms_momenta mass_format sqrt_s sample_resonance_mass phitheta a)) = a)"
  using assms by (simp add: sample_cms_momenta_def Let_def split_def)

theorem C5_witness:
  "fl binary64 (8106479329266893 / 2 ^ 53) = Finite (8106479329266893 / 2 ^ 53) \<and>
   insufficient_energy
     (fst (snd (sample_cms_momenta binary32 (\<lambda>a. Finite (8106479329266893 / 2 ^ 53))
        (\<lambda>t other e. e) up (final_state (1 / 2) (1 / 2))))) \<and>
   snd (snd (sample_cms_momenta binary32 (\<lambda>a. Finite (8106479329266893 / 2 ^ 53))
        (\<lambda>t other e. e) up (final_state (1 / 2) (1 / 2)))) = final_state (1 / 2) (1 / 2) \<and>
   \<not> insufficient_energy
     (fst (snd (sample_cms_momenta binary32 (\<lambda>a. Finite 2)
        (\<lambda>t other e. e) up (final_state (1 / 2) (1 / 2)))))"
proof -
  have low: "flt_less (Finite (8106479329266893 / 2 ^ 53))
      (fadd binary32 (minimum_mass (ptype (new_ParticleData (stable_of (1 / 2)))))
         (minimum_mass (ptype (new_ParticleData (stable_of (1 / 2))))))"
    by (simp add: final_state_fields float_eval)
  have high: "\<not> flt_less (Finite 2)
      (fadd binary32 (minimum_mass (ptype (new_ParticleData (stable_of (1 / 2)))))
         (minimum_mass (ptype (new_ParticleData (stable_of (1 / 2))))))"
    by (simp add: final_state_fields float_eval)
  have rep: "fl binary64 (8106479329266893 / 2 ^ 53) = Finite (8106479329266893 / 2 ^ 53)"
    by (simp add: float_eval)
  from C5_insufficient_energy
      [where a = "final_state (1 / 2) (1 / 2)" and mass_format = binary32
         and sqrt_s = "\<lambda>a. Finite (8106479329266893 / 2 ^ 53)"
         and sample_resonance_mass = "\<lambda>t other e. e" and phitheta = up,
       OF final_state_fields(1)]
    C5_insufficient_energy
      [where a = "final_state (1 / 2) (1 / 2)" and mass_format = binary32
         and sqrt_s = "\<lambda>a. Finite 2"
         and sample_resonance_mass = "\<lambda>t other e. e" and phitheta = up,
       OF final_state_fields(1)]
    low high rep
  show ?thesis by simp
qed

lemma fl_not_NaN: "fl f x \<noteq> NaN"
  by (simp add: fl_def Let_def)

lemma fsqrt_NaN_iff:
  "fsqrt f v = NaN \<longleftrightarrow> v = NaN \<or> v = MinusInfinity \<or> (\<exists>x<0. v = Finite x)"
  by (cases v) (simp_all add: fl_not_NaN)

lemma sample_cms_momenta_stable:
  assumes "outgoing_particles a = [p_a, p_b]"
    and "is_stable (ptype p_a)" "is_stable (ptype p_b)"
    and "\<not> flt_less (sqrt_s a)
           (fadd mass_format (minimum_mass (ptype p_a)) (minimum_mass (ptype p_b)))"
  shows "outgoing_particles
      (snd (snd (sample_cms_momenta mass_format sqrt_s sample_resonance_mass phitheta a))) =
    [p_a\<lparr>momentum :=
       FourVector_of (two_body_energy (sqrt_s a) (mass (ptype p_a)) (mass (ptype p_b)))
         (threevec_times phitheta
            (two_body_momentum (sqrt_s a) (mass (ptype p_a)) (mass (ptype p_b))))\<rparr>,
     p_b\<lparr>momentum :=
       FourVector_of
         (fsub binary64 (sqrt_s a)
            (two_body_energy (sqrt_s a) (mass (ptype p_a)) (mass (ptype p_b))))
         (threevec_uminus
            (threevec_times phitheta
               (two_body_momentum (sqrt_s a) (mass (ptype p_a)) (mass (ptype p_b)))))\<rparr>]"
  using assms
  by (simp add: sample_cms_momenta_def Let_def two_body_energy_def two_body_radicand_def
        two_body_momentum_def threevec_times_uminus)

text \<open>
  C6, as stated, fails where the \<^verbatim>\<open>double\<close> arithmetic leaves the reals. For two massless
  stable species and \<open>sqrt_s = 0\<close>, which is at the threshold, the energy is \<open>0 / 0\<close>, a
  NaN. And for the stable masses \<open>14977843 / 2\<^sup>2\<^sup>5\<close> and \<open>2673795 / 2\<^sup>2\<^sup>0\<close>, both \<^verbatim>\<open>float\<close>
  values, with \<open>sqrt_s\<close> equal to their exact sum, the call does not throw, the rounded
  \<open>E\<^sub>a\<close> is below \<open>m\<^sub>a\<close>, the rounded \<open>E\<^sub>a\<^sup>2 - m\<^sub>a\<^sup>2\<close> is \<open>- 9 / 2\<^sup>5\<^sup>5\<close>, and the momentum
  assigned is a NaN in every component.
\<close>

theorem C6_counterexample:
  "(is_stable (stable_of 0) \<and> \<not> (0::real) < 0 + 0 \<and>
    fst (snd (sample_cms_momenta binary32 (\<lambda>a. Finite 0) (\<lambda>t other e. e) up
       (final_state 0 0))) = Returns () \<and>
    x0 (momentum (outgoing_particles
       (snd (snd (sample_cms_momenta binary32 (\<lambda>a. Finite 0) (\<lambda>t other e. e) up
          (final_state 0 0)))) ! 0)) = NaN) \<and>
   (is_stable (stable_of (14977843 / 2 ^ 25)) \<and> is_stable (stable_of (2673795 / 2 ^ 20)) \<and>
    fl binary32 (14977843 / 2 ^ 25) = Finite (14977843 / 2 ^ 25) \<and>
    fl binary32 (2673795 / 2 ^ 20) = Finite (2673795 / 2 ^ 20) \<and>
    fl binary64 (100539283 / 2 ^ 25) = Finite (100539283 / 2 ^ 25) \<and>
    (0::real) < 100539283 / 2 ^ 25 \<and>
    \<not> (100539283::real) / 2 ^ 25 < 14977843 / 2 ^ 25 + 2673795 / 2 ^ 20 \<and>
    fst (snd (sample_cms_momenta binary32 (\<lambda>a. Finite (100539283 / 2 ^ 25)) (\<lambda>t other e. e) up
       (final_state (14977843 / 2 ^ 25) (2673795 / 2 ^ 20)))) = Returns () \<and>
    two_body_energy (Finite (100539283 / 2 ^ 25)) (Finite (14977843 / 2 ^ 25))
       (Finite (2673795 / 2 ^ 20)) = Finite (8041168231202811 / 2 ^ 54) \<and>
    (8041168231202811::real) / 2 ^ 54 < 14977843 / 2 ^ 25 \<and>
    two_body_radicand (Finite (100539283 / 2 ^ 25)) (Finite (14977843 / 2 ^ 25))
       (Finite (2673795 / 2 ^ 20)) = Finite (- (9 / 2 ^ 55)) \<and>
    threevec (momentum (outgoing_particles
       (snd (snd (sample_cms_momenta binary32 (\<lambda>a. Finite (100539283 / 2 ^ 25))
          (\<lambda>t other e. e) up
          (final_state (14977843 / 2 ^ 25) (2673795 / 2 ^ 20))))) ! 0)) =
      ThreeVector NaN NaN NaN)"
proof -
  have e0: "two_body_energy (Finite 0) (Finite 0) (Finite 0) = NaN"
    by (simp add: two_body_energy_def fsub_def float_eval)
  have throw0: "\<not> flt_less (Finite 0)
      (fadd binary32 (minimum_mass (ptype (new_ParticleData (stable_of 0))))
         (minimum_mass (ptype (new_ParticleData (stable_of 0)))))"
    by (simp add: final_state_fields float_eval)
  have e: "two_body_energy (Finite (100539283 / 2 ^ 25)) (Finite (14977843 / 2 ^ 25))
      (Finite (2673795 / 2 ^ 20)) = Finite (8041168231202811 / 2 ^ 54)"
    by (simp add: two_body_energy_def fsub_def float_eval)
  have rad: "two_body_radicand (Finite (100539283 / 2 ^ 25)) (Finite (14977843 / 2 ^ 25))
      (Finite (2673795 / 2 ^ 20)) = Finite (- (9 / 2 ^ 55))"
    unfolding two_body_radicand_def e by (simp add: fsub_def float_eval)
  have p: "two_body_momentum (Finite (100539283 / 2 ^ 25)) (Finite (14977843 / 2 ^ 25))
      (Finite (2673795 / 2 ^ 20)) = NaN"
    unfolding two_body_momentum_def rad by simp
  have throw: "\<not> flt_less (Finite (100539283 / 2 ^ 25))
      (fadd binary32 (minimum_mass (ptype (new_ParticleData (stable_of (14977843 / 2 ^ 25)))))
         (minimum_mass (ptype (new_ParticleData (stable_of (2673795 / 2 ^ 20))))))"
    by (simp add: final_state_fields float_eval)
  have reps: "fl binary32 (14977843 / 2 ^ 25) = Finite (14977843 / 2 ^ 25)"
    "fl binary32 (2673795 / 2 ^ 20) = Finite (2673795 / 2 ^ 20)"
    "fl binary64 (100539283 / 2 ^ 25) = Finite (100539283 / 2 ^ 25)"
    by (simp_all add: float_eval)
  have stable: "is_stable (ptype (new_ParticleData (stable_of m)))" for m
    by (simp add: final_state_fields)
  note run0 = sample_cms_momenta_stable
    [where a = "final_state 0 0" and sqrt_s = "\<lambda>a. Finite 0" and mass_format = binary32
       and sample_resonance_mass = "\<lambda>t other e. e" and phitheta = up,
     OF final_state_fields(1) stable stable throw0]
  note run = sample_cms_momenta_stable
    [where a = "final_state (14977843 / 2 ^ 25) (2673795 / 2 ^ 20)"
       and sqrt_s = "\<lambda>a. Finite (100539283 / 2 ^ 25)" and mass_format = binary32
       and sample_resonance_mass = "\<lambda>t other e. e" and phitheta = up,
     OF final_state_fields(1) stable stable throw]
  note out0 = sample_cms_momenta_outcome
    [where a = "final_state 0 0" and sqrt_s = "\<lambda>a. Finite 0" and mass_format = binary32
       and sample_resonance_mass = "\<lambda>t other e. e" and phitheta = up,
     OF final_state_fields(1)]
  note out = sample_cms_momenta_outcome
    [where a = "final_state (14977843 / 2 ^ 25) (2673795 / 2 ^ 20)"
       and sqrt_s = "\<lambda>a. Finite (100539283 / 2 ^ 25)" and mass_format = binary32
       and sample_resonance_mass = "\<lambda>t other e. e" and phitheta = up,
     OF final_state_fields(1)]
  have first: "fst (snd (sample_cms_momenta binary32 (\<lambda>a. Finite 0) (\<lambda>t other e. e) up
       (final_state 0 0))) = Returns () \<and>
    x0 (momentum (outgoing_particles
       (snd (snd (sample_cms_momenta binary32 (\<lambda>a. Finite 0) (\<lambda>t other e. e) up
          (final_state 0 0)))) ! 0)) = NaN"
    unfolding run0 out0 using throw0 by (simp add: final_state_fields e0 FourVector_of_parts)
  have second: "fst (snd (sample_cms_momenta binary32 (\<lambda>a. Finite (100539283 / 2 ^ 25))
       (\<lambda>t other e. e) up (final_state (14977843 / 2 ^ 25) (2673795 / 2 ^ 20)))) = Returns () \<and>
    threevec (momentum (outgoing_particles
       (snd (snd (sample_cms_momenta binary32 (\<lambda>a. Finite (100539283 / 2 ^ 25))
          (\<lambda>t other e. e) up
          (final_state (14977843 / 2 ^ 25) (2673795 / 2 ^ 20))))) ! 0)) =
      ThreeVector NaN NaN NaN"
    unfolding run out using throw
    by (simp add: final_state_fields p [simplified] threevec_def up_def)
  from first second e rad reps show ?thesis
    by (simp add: final_state_fields)
qed

text \<open>
  C6, amended. For a final state of two stable species on which the energy test of the
  source passes, \<open>sample_cms_momenta\<close> returns and assigns the four-momenta \<open>(E\<^sub>a, p d)\<close> to
  particle a and \<open>(\<surd>s - E\<^sub>a, - (p d))\<close> to particle b, where \<open>d\<close> is the direction drawn,
  \<open>E\<^sub>a = (s + m\<^sub>a\<^sup>2 - m\<^sub>b\<^sup>2) / (2 \<surd>s)\<close> and \<open>p = \<surd>(E\<^sub>a\<^sup>2 - m\<^sub>a\<^sup>2)\<close> with the pole masses, and
  every sum, difference, product, quotient and root is rounded to \<^verbatim>\<open>double\<close>. The two
  three-momenta are exact negatives of each other, component by component. \<open>E\<^sub>a + E\<^sub>b\<close>
  is \<open>\<surd>s\<close> up to the rounding of the subtraction only, and \<open>p\<close> is a NaN exactly when the
  rounded \<open>E\<^sub>a\<^sup>2 - m\<^sub>a\<^sup>2\<close> is negative or not a number, which happens at the threshold and
  for \<open>\<surd>s = 0\<close>.
\<close>

theorem C6_two_body_momenta:
  fixes sqrt_s :: "Action \<Rightarrow> flt"
  defines "E_a \<equiv> \<lambda>a p_a p_b. two_body_energy (sqrt_s a) (mass (ptype p_a)) (mass (ptype p_b))"
    and "p \<equiv> \<lambda>a p_a p_b. two_body_momentum (sqrt_s a) (mass (ptype p_a)) (mass (ptype p_b))"
    and "radicand \<equiv> \<lambda>a p_a p_b.
      two_body_radicand (sqrt_s a) (mass (ptype p_a)) (mass (ptype p_b))"
  assumes out: "outgoing_particles a = [p_a, p_b]"
    and stable: "is_stable (ptype p_a)" "is_stable (ptype p_b)"
    and enough: "\<not> flt_less (sqrt_s a)
      (fadd mass_format (minimum_mass (ptype p_a)) (minimum_mass (ptype p_b)))"
  shows "fst (snd (sample_cms_momenta mass_format sqrt_s sample_resonance_mass phitheta a)) =
      Returns () \<and>
    outgoing_particles
      (snd (snd (sample_cms_momenta mass_format sqrt_s sample_resonance_mass phitheta a))) =
      [p_a\<lparr>momentum := FourVector_of (E_a a p_a p_b) (threevec_times phitheta (p a p_a p_b))\<rparr>,
       p_b\<lparr>momentum := FourVector_of (fsub binary64 (sqrt_s a) (E_a a p_a p_b))
                         (threevec_uminus (threevec_times phitheta (p a p_a p_b)))\<rparr>] \<and>
    (p a p_a p_b = NaN \<longleftrightarrow>
       radicand a p_a p_b = NaN \<or> radicand a p_a p_b = MinusInfinity \<or>
       (\<exists>x<0. radicand a p_a p_b = Finite x))"
  unfolding E_a_def p_def radicand_def
  using sample_cms_momenta_stable
      [where a = a and sqrt_s = sqrt_s and mass_format = mass_format, OF out stable enough]
    sample_cms_momenta_outcome
      [where a = a and sqrt_s = sqrt_s and mass_format = mass_format, OF out] enough
  by (simp add: two_body_momentum_def fsqrt_NaN_iff)

theorem C6_witness:
  "fst (snd (sample_cms_momenta binary32 (\<lambda>a. Finite 10) (\<lambda>t other e. e) up
      (final_state 3 3))) = Returns () \<and>
   map momentum (outgoing_particles
     (snd (snd (sample_cms_momenta binary32 (\<lambda>a. Finite 10) (\<lambda>t other e. e) up
        (final_state 3 3))))) =
     [\<lparr>x0 = Finite 5, x1 = Finite 0, x2 = Finite 0, x3 = Finite 4\<rparr>,
      \<lparr>x0 = Finite 5, x1 = Finite 0, x2 = Finite 0, x3 = Finite (- 4)\<rparr>]"
proof -
  have e: "two_body_energy (Finite 10) (Finite 3) (Finite 3) = Finite 5"
    by (simp add: two_body_energy_def fsub_def float_eval)
  have rad: "two_body_radicand (Finite 10) (Finite 3) (Finite 3) = Finite 16"
    unfolding two_body_radicand_def e by (simp add: fsub_def float_eval)
  have "sqrt 16 = (4::real)" by (rule real_sqrt_unique) simp_all
  then have p: "two_body_momentum (Finite 10) (Finite 3) (Finite 3) = Finite 4"
    unfolding two_body_momentum_def rad by (simp add: float_eval)
  have enough: "\<not> flt_less (Finite 10)
      (fadd binary32 (minimum_mass (ptype (new_ParticleData (stable_of 3))))
         (minimum_mass (ptype (new_ParticleData (stable_of 3)))))"
    by (simp add: final_state_fields float_eval)
  have stable: "is_stable (ptype (new_ParticleData (stable_of 3)))"
    by (simp add: final_state_fields)
  from C6_two_body_momenta
    [where a = "final_state 3 3" and sqrt_s = "\<lambda>a. Finite 10" and mass_format = binary32
       and sample_resonance_mass = "\<lambda>t other e. e" and phitheta = up,
     OF final_state_fields(1) stable stable enough]
  show ?thesis
    by (simp add: final_state_fields e p up_def fsub_def float_eval)
qed

lemma sampler_calls_append:
  "sampler_calls (evs @ evs') = sampler_calls evs @ sampler_calls evs'"
  by (induction evs rule: sampler_calls.induct) simp_all

text \<open>
  C8. In a run of \<open>sample_cms_momenta\<close> on two outgoing particles the resonance mass
  sampler is called at most once. If species a is unstable, its mass is sampled and b
  enters with its pole mass, also when b is unstable too; the mass of b is sampled only
  when a is stable and b is not; with both stable there is no call. The four-momentum
  assigned to particle a is that of the masses so chosen.
\<close>

theorem C8_at_most_one_mass_sampled:
  fixes sqrt_s :: "Action \<Rightarrow> flt"
    and sample_resonance_mass :: "ParticleType \<Rightarrow> ParticleType \<Rightarrow> flt \<Rightarrow> flt"
  defines "m_a \<equiv> \<lambda>a t_a t_b.
      if \<not> is_stable t_a then sample_resonance_mass t_a t_b (sqrt_s a) else mass t_a"
    and "m_b \<equiv> \<lambda>a t_a t_b.
      if is_stable t_a \<and> \<not> is_stable t_b then sample_resonance_mass t_b t_a (sqrt_s a)
      else mass t_b"
    and "run \<equiv> \<lambda>mass_format phitheta a.
      sample_cms_momenta mass_format sqrt_s sample_resonance_mass phitheta a"
    and "threshold \<equiv> \<lambda>mass_format a p_a p_b. flt_less (sqrt_s a)
      (fadd mass_format (minimum_mass (ptype p_a)) (minimum_mass (ptype p_b)))"
  assumes out: "outgoing_particles a = [p_a, p_b]"
  shows "sampler_calls (fst (run mass_format phitheta a)) =
      (if threshold mass_format a p_a p_b then []
       else if \<not> is_stable (ptype p_a) then [(ptype p_a, ptype p_b, sqrt_s a)]
       else if \<not> is_stable (ptype p_b) then [(ptype p_b, ptype p_a, sqrt_s a)]
       else []) \<and>
    length (sampler_calls (fst (run mass_format phitheta a))) \<le> 1 \<and>
    (\<not> threshold mass_format a p_a p_b \<longrightarrow>
       momentum (outgoing_particles (snd (snd (run mass_format phitheta a))) ! 0) =
         FourVector_of
           (two_body_energy (sqrt_s a) (m_a a (ptype p_a) (ptype p_b)) (m_b a (ptype p_a) (ptype p_b)))
           (threevec_times phitheta
              (two_body_momentum (sqrt_s a) (m_a a (ptype p_a) (ptype p_b))
                 (m_b a (ptype p_a) (ptype p_b)))))"
  using out
  by (simp add: run_def m_a_def m_b_def threshold_def sample_cms_momenta_def Let_def split_def
        sampler_calls_append two_body_energy_def two_body_radicand_def two_body_momentum_def)

theorem C8_witness:
  "sampler_calls
     (fst (sample_cms_momenta binary32 (\<lambda>a. Finite 4) (\<lambda>t other e. Finite 2) up resonance_pair)) =
     [(resonance, resonance, Finite 4)] \<and>
   x0 (momentum (outgoing_particles
     (snd (snd (sample_cms_momenta binary32 (\<lambda>a. Finite 4) (\<lambda>t other e. Finite 2) up
        resonance_pair))) ! 0)) = Finite (19 / 8)"
proof -
  have out: "outgoing_particles resonance_pair =
      [new_ParticleData resonance, new_ParticleData resonance]"
    by (simp add: resonance_pair_def candidate_def new_Action_def)
  have res: "\<not> is_stable resonance" "minimum_mass resonance = Finite (1 / 2)"
    "mass resonance = Finite 1"
    by (simp_all add: resonance_def)
  have e: "two_body_energy (Finite 4) (Finite 2) (Finite 1) = Finite (19 / 8)"
    by (simp add: two_body_energy_def fsub_def float_eval)
  have enough: "\<not> flt_less (Finite 4) (fadd binary32 (Finite (1 / 2)) (Finite (1 / 2)))"
    by (simp add: float_eval)
  from C8_at_most_one_mass_sampled
    [where a = resonance_pair and sqrt_s = "\<lambda>a. Finite 4" and mass_format = binary32
       and sample_resonance_mass = "\<lambda>t other e. Finite 2" and phitheta = up,
     OF out] enough
  show ?thesis
    by (simp add: final_state_fields(2) res e FourVector_of_parts)
qed

end
